theory Spec2Isabelle
  imports Complex_Main
begin

section \<open>Python values used by the land analyzer\<close>

text \<open>
  The analyzer of \<^verbatim>\<open>climatechic_mvp_poc.py\<close> computes with Python numbers. A Python
  \<^verbatim>\<open>float\<close> is modelled by an exact real number: the rounding error of IEEE-754
  arithmetic, infinities and NaN are outside this model. The distinction between
  \<^verbatim>\<open>int\<close> and \<^verbatim>\<open>float\<close> is kept, because \<^verbatim>\<open>max_overlap\<close> starts as the
  integer \<^verbatim>\<open>0\<close> and the two print differently.
\<close>

datatype error = ZeroDivisionError

datatype pynum = PyInt int | PyFloat real

fun py_val :: "pynum \<Rightarrow> real" where
  "py_val (PyInt i) = of_int i"
| "py_val (PyFloat x) = x"

definition py_truediv :: "real \<Rightarrow> real \<Rightarrow> error + real" where
  \<comment> \<open>\<^verbatim>\<open>a / b\<close> on floats raises when the divisor is zero.\<close>
  "py_truediv a b = (if b = 0 then Inl ZeroDivisionError else Inr (a / b))"

definition py_int :: "real \<Rightarrow> int" where
  \<comment> \<open>\<^verbatim>\<open>int(x)\<close> drops the fractional part: truncation toward zero.\<close>
  "py_int x = (if 0 \<le> x then \<lfloor>x\<rfloor> else \<lceil>x\<rceil>)"

definition round_half_even :: "real \<Rightarrow> int" where
  "round_half_even x =
     (let f = \<lfloor>x\<rfloor>; d = x - of_int f
      in if d < 1 / 2 then f else if 1 / 2 < d then f + 1
         else if even f then f else f + 1)"

definition py_round_float :: "real \<Rightarrow> nat \<Rightarrow> real" where
  \<comment> \<open>\<^verbatim>\<open>round(x, n)\<close> on a float: the nearest multiple of \<open>10\<^sup>-\<^sup>n\<close>, ties to even.\<close>
  "py_round_float x n = of_int (round_half_even (x * 10 ^ n)) / 10 ^ n"

fun py_round :: "pynum \<Rightarrow> nat \<Rightarrow> pynum" where
  \<comment> \<open>\<^verbatim>\<open>round(i, n)\<close> on an int with \<open>n \<ge> 0\<close> returns the int itself.\<close>
  "py_round (PyInt i) n = PyInt i"
| "py_round (PyFloat x) n = PyFloat (py_round_float x n)"

fun before_sep :: "string \<Rightarrow> string \<Rightarrow> string" where
  \<comment> \<open>\<^verbatim>\<open>s.split(sep)[0]\<close>: the text before the first occurrence of \<open>sep\<close>,
      all of \<open>s\<close> when there is none.\<close>
  "before_sep sep [] = []"
| "before_sep sep (c # cs) =
     (if take (length sep) (c # cs) = sep then [] else c # before_sep sep cs)"

section \<open>Data model\<close>

record flora_entry =
  name :: string
  type :: string
  chicken_benefit :: string

record simulation =
  land_area_hectares :: real
  estimated_trees_year_5 :: int
  estimated_chickens_year_2 :: int
  black_soldier_fly_production_kg_week :: int
  region_overlap_percentage :: pynum

record plan =
  biogeographic_region :: string
  recommended_flora :: "flora_entry list"
  simulation :: simulation

text \<open>
  The geometry is computed by the shapely library: \<^verbatim>\<open>union_all\<close>, \<^verbatim>\<open>intersects\<close>,
  \<^verbatim>\<open>intersection\<close> and \<^verbatim>\<open>area\<close>. The analyzer is written against these four
  operations, whatever the representation \<open>'g\<close> of a geometry is. Each is a total
  function here: an exception raised inside the library on malformed coordinates is
  outside this model.
\<close>

record 'g geometry_ops =
  union_all :: "'g list \<Rightarrow> 'g"
  intersects :: "'g \<Rightarrow> 'g \<Rightarrow> bool"
  intersection :: "'g \<Rightarrow> 'g \<Rightarrow> 'g"
  area :: "'g \<Rightarrow> real"

type_synonym 'g regions_gdf = "(string \<times> 'g) list"

type_synonym flora_database = "string \<rightharpoonup> flora_entry list"

section \<open>The land analyzer\<close>

text \<open>
  The loop over \<^verbatim>\<open>BIOGEO_REGIONS_GDF.iterrows()\<close>. Its state is the pair
  \<^verbatim>\<open>(max_overlap, intersected_region)\<close>; the division raises when the merged
  boundary has area zero.
\<close>

fun region_loop ::
  "'g geometry_ops \<Rightarrow> 'g \<Rightarrow> 'g regions_gdf \<Rightarrow> pynum \<times> string option
    \<Rightarrow> error + (pynum \<times> string option)" where
  "region_loop K boundary_geom [] st = Inr st"
| "region_loop K boundary_geom ((region_name, region_geometry) # rest)
      (max_overlap, intersected_region) =
     (if intersects K boundary_geom region_geometry then
        (let overlap_area = area K (intersection K boundary_geom region_geometry)
         in case py_truediv overlap_area (area K boundary_geom) of
              Inl e \<Rightarrow> Inl e
            | Inr q \<Rightarrow>
                (let overlap_percentage = q * 100
                 in if overlap_percentage > py_val max_overlap
                    then region_loop K boundary_geom rest
                           (PyFloat overlap_percentage, Some region_name)
                    else region_loop K boundary_geom rest
                           (max_overlap, intersected_region)))
      else region_loop K boundary_geom rest (max_overlap, intersected_region))"

definition region_key_of :: "string option \<Rightarrow> string" where
  \<comment> \<open>\<^verbatim>\<open>intersected_region.split('_Region')[0] if intersected_region else
      "Tropical_Savanna"\<close>: \<^verbatim>\<open>None\<close> and the empty string are both falsy.\<close>
  "region_key_of intersected_region =
     (case intersected_region of
        None \<Rightarrow> ''Tropical_Savanna''
      | Some n \<Rightarrow> if n = [] then ''Tropical_Savanna'' else before_sep ''_Region'' n)"

definition dict_get :: "('k \<rightharpoonup> 'v) \<Rightarrow> 'k \<Rightarrow> 'v \<Rightarrow> 'v" where
  \<comment> \<open>\<^verbatim>\<open>d.get(k, default)\<close>\<close>
  "dict_get d k dflt = (case d k of None \<Rightarrow> dflt | Some v \<Rightarrow> v)"

definition analyze_land ::
  "'g geometry_ops \<Rightarrow> 'g regions_gdf \<Rightarrow> flora_database \<Rightarrow> 'g list \<Rightarrow> error + plan" where
  "analyze_land K BIOGEO_REGIONS FLORA boundary_gdf =
     (let boundary_geom = union_all K boundary_gdf
      in case region_loop K boundary_geom BIOGEO_REGIONS (PyInt 0, None) of
           Inl e \<Rightarrow> Inl e
         | Inr (max_overlap, intersected_region) \<Rightarrow>
             (let region_key = region_key_of intersected_region;
                  area_hectares = area K boundary_geom * 10000
              in Inr \<lparr>biogeographic_region = region_key,
                      recommended_flora = dict_get FLORA region_key [],
                      simulation =
                        \<lparr>land_area_hectares = py_round_float area_hectares 2,
                         estimated_trees_year_5 = py_int (area_hectares * 100),
                         estimated_chickens_year_2 = py_int (area_hectares * 50),
                         black_soldier_fly_production_kg_week = py_int (area_hectares * 2),
                         region_overlap_percentage = py_round max_overlap 1\<rparr>\<rparr>))"

section \<open>The tables of the module\<close>

definition FLORA_DATABASE :: flora_database where
  "FLORA_DATABASE =
     [''Tropical_Rainforest'' \<mapsto>
        [\<lparr>name = ''Leucaena leucocephala'', type = ''Tree'',
          chicken_benefit = ''High-protein forage, shade''\<rparr>,
         \<lparr>name = ''Moringa oleifera'', type = ''Tree'',
          chicken_benefit = ''Vitamins, minerals, forage''\<rparr>,
         \<lparr>name = ''Paspalum notatum'', type = ''Grass'',
          chicken_benefit = ''Ground cover, forage''\<rparr>],
      ''Tropical_Savanna'' \<mapsto>
        [\<lparr>name = ''Acacia tortilis'', type = ''Tree'',
          chicken_benefit = ''Shade, pods for forage''\<rparr>,
         \<lparr>name = ''Cenchrus ciliaris'', type = ''Grass'',
          chicken_benefit = ''Drought-resistant forage''\<rparr>]]"

section \<open>Axis-parallel rectangles: a geometry that computes\<close>

text \<open>
  Both regions of the module are axis-parallel rectangles. A rectangle is
  \<open>(minx, miny, maxx, maxy)\<close>, a closed set of the plane; a geometry is a list of
  rectangles, read as their union. \<open>rect_union_all\<close> keeps the pieces free of
  overlap, so that the area of a geometry is the sum of the areas of its pieces.
\<close>

type_synonym rect = "real \<times> real \<times> real \<times> real"

fun rect_wf :: "rect \<Rightarrow> bool" where
  "rect_wf (x0, y0, x1, y1) = (x0 \<le> x1 \<and> y0 \<le> y1)"

fun rect_area :: "rect \<Rightarrow> real" where
  "rect_area (x0, y0, x1, y1) = (x1 - x0) * (y1 - y0)"

fun rect_meet :: "rect \<Rightarrow> rect \<Rightarrow> rect" where
  "rect_meet (x0, y0, x1, y1) (u0, v0, u1, v1) = (max x0 u0, max y0 v0, min x1 u1, min y1 v1)"

fun rect_touch :: "rect \<Rightarrow> rect \<Rightarrow> bool" where
  \<comment> \<open>the closed rectangles share a point\<close>
  "rect_touch (x0, y0, x1, y1) (u0, v0, u1, v1) =
     (max x0 u0 \<le> min x1 u1 \<and> max y0 v0 \<le> min y1 v1)"

fun rect_overlap :: "rect \<Rightarrow> rect \<Rightarrow> bool" where
  \<comment> \<open>the rectangles share interior points\<close>
  "rect_overlap (x0, y0, x1, y1) (u0, v0, u1, v1) =
     (max x0 u0 < min x1 u1 \<and> max y0 v0 < min y1 v1)"

fun rect_minus :: "rect \<Rightarrow> rect \<Rightarrow> rect list" where
  \<comment> \<open>the part of the first rectangle outside the second, cut into at most four pieces\<close>
  "rect_minus (x0, y0, x1, y1) (u0, v0, u1, v1) =
     (if rect_overlap (x0, y0, x1, y1) (u0, v0, u1, v1) then
        (if x0 < u0 then [(x0, y0, u0, y1)] else []) @
        (if u1 < x1 then [(u1, y0, x1, y1)] else []) @
        (if y0 < v0 then [(max x0 u0, y0, min x1 u1, v0)] else []) @
        (if v1 < y1 then [(max x0 u0, v1, min x1 u1, y1)] else [])
      else [(x0, y0, x1, y1)])"

fun rect_union_all :: "rect list \<Rightarrow> rect list" where
  \<comment> \<open>the first rectangle whole, then what the others add outside it\<close>
  "rect_union_all [] = []"
| "rect_union_all (b # bs) = b # concat (map (\<lambda>p. rect_minus p b) (rect_union_all bs))"

definition rect_intersects :: "rect list \<Rightarrow> rect list \<Rightarrow> bool" where
  "rect_intersects G H = (\<exists>a \<in> set G. \<exists>b \<in> set H. rect_touch a b)"

definition rect_intersection :: "rect list \<Rightarrow> rect list \<Rightarrow> rect list" where
  "rect_intersection G H =
     concat (map (\<lambda>a. map (rect_meet a) (filter (rect_touch a) H)) G)"

definition rect_geom_area :: "rect list \<Rightarrow> real" where
  "rect_geom_area G = sum_list (map rect_area G)"

definition rect_ops :: "rect list geometry_ops" where
  "rect_ops = \<lparr>union_all = (\<lambda>gs. rect_union_all (concat gs)),
               intersects = rect_intersects,
               intersection = rect_intersection,
               area = rect_geom_area\<rparr>"

definition Polygon_rect :: "real \<Rightarrow> real \<Rightarrow> real \<Rightarrow> real \<Rightarrow> rect list" where
  \<comment> \<open>the polygon with the ring \<open>(x0, y0), (x1, y0), (x1, y1), (x0, y1), (x0, y0)\<close>\<close>
  "Polygon_rect x0 y0 x1 y1 = [(x0, y0, x1, y1)]"

definition BIOGEO_REGIONS_GDF :: "rect list regions_gdf" where
  "BIOGEO_REGIONS_GDF =
     [(''Tropical_Rainforest_Region'', Polygon_rect 33.5 (-1.5) 35.5 1.5),
      (''Tropical_Savanna_Region'', Polygon_rect 36.0 (-2.0) 38.0 0.5)]"

section \<open>The report\<close>











section \<open>Notions used in the statements\<close>

text \<open>
  \<open>overlap_pct\<close> is the value the loop computes for a region once the division has
  succeeded; \<open>make_plan\<close> is the dictionary \<^verbatim>\<open>analyze_land\<close> builds from the final
  loop state.
\<close>

definition overlap_pct :: "'g geometry_ops \<Rightarrow> 'g \<Rightarrow> 'g \<Rightarrow> real" where
  "overlap_pct K boundary_geom region_geometry =
     area K (intersection K boundary_geom region_geometry) / area K boundary_geom * 100"

definition make_plan :: "'g geometry_ops \<Rightarrow> flora_database \<Rightarrow> 'g \<Rightarrow> pynum \<times> string option \<Rightarrow> plan" where
  "make_plan K FLORA boundary_geom st =
     \<lparr>biogeographic_region = region_key_of (snd st),
      recommended_flora = dict_get FLORA (region_key_of (snd st)) [],
      simulation =
        \<lparr>land_area_hectares = py_round_float (area K boundary_geom * 10000) 2,
         estimated_trees_year_5 = py_int (area K boundary_geom * 10000 * 100),
         estimated_chickens_year_2 = py_int (area K boundary_geom * 10000 * 50),
         black_soldier_fly_production_kg_week = py_int (area K boundary_geom * 10000 * 2),
         region_overlap_percentage = py_round (fst st) 1\<rparr>\<rparr>"








section \<open>The region loop\<close>

lemma analyze_land_eq:
  "analyze_land K R F b =
     (case region_loop K (union_all K b) R (PyInt 0, None) of
        Inl e \<Rightarrow> Inl e
      | Inr st \<Rightarrow> Inr (make_plan K F (union_all K b) st))"
  by (simp add: analyze_land_def make_plan_def Let_def split: sum.splits prod.splits)

lemma region_loop_no_hit:
  "\<forall>r \<in> set R. \<not> intersects K bg (snd r) \<Longrightarrow> region_loop K bg R st = Inr st"
  by (induction R arbitrary: st) (auto)

lemma region_loop_zero_area:
  "area K bg = 0 \<Longrightarrow> \<exists>r \<in> set R. intersects K bg (snd r) \<Longrightarrow>
     region_loop K bg R st = Inl ZeroDivisionError"
proof (induction R arbitrary: st)
  case Nil
  then show ?case by simp
next
  case (Cons r R)
  obtain n g where r: "r = (n, g)" by (cases r)
  obtain m s where st: "st = (m, s)" by (cases st)
  show ?case
  proof (cases "intersects K bg g")
    case True
    then show ?thesis using Cons.prems(1) by (simp add: r st py_truediv_def)
  next
    case False
    then have "\<exists>r \<in> set R. intersects K bg (snd r)" using Cons.prems(2) by (simp add: r)
    then show ?thesis using Cons.IH[OF Cons.prems(1)] False by (simp add: r st)
  qed
qed

lemma region_loop_first_max:
  assumes "region_loop K bg R (m0, s0) = Inr (m, s)"
  shows "((m, s) = (m0, s0) \<and> (\<forall>r \<in> set R. intersects K bg (snd r) \<longrightarrow> overlap_pct K bg (snd r) \<le> py_val m0))
       \<or> (\<exists>pre n g post. R = pre @ (n, g) # post \<and> intersects K bg g \<and>
             py_val m0 < overlap_pct K bg g \<and>
             m = PyFloat (overlap_pct K bg g) \<and> s = Some n \<and>
             (\<forall>r \<in> set pre. intersects K bg (snd r) \<longrightarrow> overlap_pct K bg (snd r) < overlap_pct K bg g) \<and>
             (\<forall>r \<in> set post. intersects K bg (snd r) \<longrightarrow> overlap_pct K bg (snd r) \<le> overlap_pct K bg g))"
  using assms
proof (induction R arbitrary: m0 s0)
  case Nil
  then show ?case by simp
next
  case (Cons r R)
  obtain n g where r: "r = (n, g)" by (cases r)
  let ?p = "overlap_pct K bg g"
  show ?case
  proof (cases "intersects K bg g")
    case False
    then have loop: "region_loop K bg R (m0, s0) = Inr (m, s)" using Cons.prems by (simp add: r)
    from Cons.IH[OF loop] show ?thesis
    proof (elim disjE exE conjE)
      assume "(m, s) = (m0, s0)" "\<forall>r \<in> set R. intersects K bg (snd r) \<longrightarrow> overlap_pct K bg (snd r) \<le> py_val m0"
      then show ?thesis using False by (simp add: r)
    next
      fix pre n' g' post
      assume a: "R = pre @ (n', g') # post" "intersects K bg g'" "py_val m0 < overlap_pct K bg g'"
        "m = PyFloat (overlap_pct K bg g')" "s = Some n'"
        "\<forall>r \<in> set pre. intersects K bg (snd r) \<longrightarrow> overlap_pct K bg (snd r) < overlap_pct K bg g'"
        "\<forall>r \<in> set post. intersects K bg (snd r) \<longrightarrow> overlap_pct K bg (snd r) \<le> overlap_pct K bg g'"
      have "r # R = (r # pre) @ (n', g') # post" using a(1) by simp
      moreover have "\<forall>r' \<in> set (r # pre). intersects K bg (snd r') \<longrightarrow> overlap_pct K bg (snd r') < overlap_pct K bg g'"
        using a(6) False by (simp add: r)
      ultimately show ?thesis using a by blast
    qed
  next
    case True
    have nz: "area K bg \<noteq> 0" using Cons.prems True by (auto simp: r py_truediv_def split: if_splits)
    show ?thesis
    proof (cases "?p > py_val m0")
      case False
      then have loop: "region_loop K bg R (m0, s0) = Inr (m, s)"
        using Cons.prems True nz by (simp add: r py_truediv_def overlap_pct_def)
      from Cons.IH[OF loop] show ?thesis
      proof (elim disjE exE conjE)
        assume "(m, s) = (m0, s0)" "\<forall>r \<in> set R. intersects K bg (snd r) \<longrightarrow> overlap_pct K bg (snd r) \<le> py_val m0"
        then show ?thesis using False by (simp add: r)
      next
        fix pre n' g' post
        assume a: "R = pre @ (n', g') # post" "intersects K bg g'" "py_val m0 < overlap_pct K bg g'"
          "m = PyFloat (overlap_pct K bg g')" "s = Some n'"
          "\<forall>r \<in> set pre. intersects K bg (snd r) \<longrightarrow> overlap_pct K bg (snd r) < overlap_pct K bg g'"
          "\<forall>r \<in> set post. intersects K bg (snd r) \<longrightarrow> overlap_pct K bg (snd r) \<le> overlap_pct K bg g'"
        have "r # R = (r # pre) @ (n', g') # post" using a(1) by simp
        moreover have "\<forall>r' \<in> set (r # pre). intersects K bg (snd r') \<longrightarrow> overlap_pct K bg (snd r') < overlap_pct K bg g'"
          using a(6) a(3) False by (auto simp add: r)
        ultimately show ?thesis using a by blast
      qed
    next
      case gt: True
      then have loop: "region_loop K bg R (PyFloat ?p, Some n) = Inr (m, s)"
        using Cons.prems True nz by (simp add: r py_truediv_def overlap_pct_def)
      from Cons.IH[OF loop] show ?thesis
      proof (elim disjE exE conjE)
        assume b: "(m, s) = (PyFloat ?p, Some n)"
          "\<forall>r \<in> set R. intersects K bg (snd r) \<longrightarrow> overlap_pct K bg (snd r) \<le> py_val (PyFloat ?p)"
        have "r # R = [] @ (n, g) # R" by (simp add: r)
        moreover have "\<forall>r \<in> set R. intersects K bg (snd r) \<longrightarrow> overlap_pct K bg (snd r) \<le> ?p"
          using b(2) by simp
        moreover have "\<forall>r \<in> set ([]::(string \<times> 'a) list). intersects K bg (snd r) \<longrightarrow> overlap_pct K bg (snd r) < ?p"
          by simp
        ultimately show ?thesis using b(1) gt True by blast
      next
        fix pre n' g' post
        assume a: "R = pre @ (n', g') # post" "intersects K bg g'" "py_val (PyFloat ?p) < overlap_pct K bg g'"
          "m = PyFloat (overlap_pct K bg g')" "s = Some n'"
          "\<forall>r \<in> set pre. intersects K bg (snd r) \<longrightarrow> overlap_pct K bg (snd r) < overlap_pct K bg g'"
          "\<forall>r \<in> set post. intersects K bg (snd r) \<longrightarrow> overlap_pct K bg (snd r) \<le> overlap_pct K bg g'"
        have "r # R = (r # pre) @ (n', g') # post" using a(1) by simp
        moreover have "\<forall>r' \<in> set (r # pre). intersects K bg (snd r') \<longrightarrow> overlap_pct K bg (snd r') < overlap_pct K bg g'"
          using a(6) a(3) by (auto simp add: r)
        moreover have "py_val m0 < overlap_pct K bg g'" using a(3) gt by simp
        ultimately show ?thesis using a by blast
      qed
    qed
  qed
qed

lemma region_loop_total:
  "\<forall>r \<in> set R. intersects K bg (snd r) \<longrightarrow> area K bg \<noteq> 0 \<Longrightarrow> \<exists>st'. region_loop K bg R st = Inr st'"
proof (induction R arbitrary: st)
  case Nil
  then show ?case by simp
next
  case (Cons r R)
  obtain n g where r: "r = (n, g)" by (cases r)
  obtain m s where st: "st = (m, s)" by (cases st)
  from Cons.prems have rest: "\<forall>r \<in> set R. intersects K bg (snd r) \<longrightarrow> area K bg \<noteq> 0" by simp
  show ?case using Cons.IH[OF rest] Cons.prems
    by (simp add: r st py_truediv_def Let_def)
qed

section \<open>Evaluation on rectangles\<close>

lemmas rect_eval =
  analyze_land_def rect_ops_def BIOGEO_REGIONS_GDF_def Polygon_rect_def rect_intersects_def
  rect_intersection_def rect_geom_area_def py_truediv_def region_key_of_def dict_get_def
  FLORA_DATABASE_def py_round_float_def round_half_even_def py_int_def overlap_pct_def

lemma analyze_land_Inr:
  "analyze_land K R F b = Inr p \<Longrightarrow>
     \<exists>st. region_loop K (union_all K b) R (PyInt 0, None) = Inr st \<and>
          p = make_plan K F (union_all K b) st"
  by (auto simp: analyze_land_eq split: sum.splits)

section \<open>Truncation and rounding\<close>

text \<open>\<open>py_int\<close> moves toward zero by less than one.\<close>

lemma py_int_toward_zero:
  "\<bar>real_of_int (py_int x)\<bar> \<le> \<bar>x\<bar> \<and> \<bar>x\<bar> < \<bar>real_of_int (py_int x)\<bar> + 1 \<and>
   (0 \<le> x \<longrightarrow> 0 \<le> py_int x) \<and> (x \<le> 0 \<longrightarrow> py_int x \<le> 0)"
  unfolding py_int_def by (cases "0 \<le> x") (simp_all, linarith+)





section \<open>Areas of rectangles\<close>

text \<open>
  Cutting a list of well-formed rectangles with one rectangle gives an area between zero
  and the area of the list, and the pieces of a union are well-formed: the rectangle
  geometry satisfies what the bound on the overlap percentage asks of a geometry.
\<close>

lemma rect_meet_area:
  assumes "rect_wf a" "rect_touch a r"
  shows "0 \<le> rect_area (rect_meet a r) \<and> rect_area (rect_meet a r) \<le> rect_area a"
proof -
  obtain x0 y0 x1 y1 where a: "a = (x0, y0, x1, y1)" by (cases a)
  obtain u0 v0 u1 v1 where r: "r = (u0, v0, u1, v1)" by (cases r)
  let ?w = "min x1 u1 - max x0 u0" and ?h = "min y1 v1 - max y0 v0"
  have w: "0 \<le> ?w" "?w \<le> x1 - x0" and h: "0 \<le> ?h" "?h \<le> y1 - y0"
    using assms by (auto simp: a r)
  have "?w * ?h \<le> (x1 - x0) * (y1 - y0)" using w h by (intro mult_mono) auto
  moreover have "0 \<le> ?w * ?h" using w h by simp
  ultimately show ?thesis by (simp add: a r)
qed

lemma rect_intersection_area:
  assumes "\<forall>a \<in> set G. rect_wf a"
  shows "0 \<le> rect_geom_area (rect_intersection G [r]) \<and>
         rect_geom_area (rect_intersection G [r]) \<le> rect_geom_area G"
  using assms
proof (induction G)
  case Nil
  then show ?case by (simp add: rect_geom_area_def rect_intersection_def)
next
  case (Cons a G)
  then have ih: "0 \<le> rect_geom_area (rect_intersection G [r]) \<and>
         rect_geom_area (rect_intersection G [r]) \<le> rect_geom_area G" by simp
  have wf: "rect_wf a" using Cons.prems by simp
  then have area_a: "0 \<le> rect_area a" by (cases a) auto
  show ?case
  proof (cases "rect_touch a r")
    case True
    with rect_meet_area[OF wf True] ih show ?thesis
      by (simp add: rect_geom_area_def rect_intersection_def)
  next
    case False
    with ih area_a show ?thesis
      by (simp add: rect_geom_area_def rect_intersection_def)
  qed
qed

lemma rect_minus_wf: "rect_wf p \<Longrightarrow> q \<in> set (rect_minus p b) \<Longrightarrow> rect_wf q"
  by (cases p; cases b) (auto split: if_splits)

lemma rect_union_all_wf: "\<forall>a \<in> set bs. rect_wf a \<Longrightarrow> \<forall>a \<in> set (rect_union_all bs). rect_wf a"
  by (induction bs) (auto dest: rect_minus_wf)

lemma rect_ops_overlap_bounds:
  assumes "\<forall>a \<in> set (concat b). rect_wf a"
  shows "0 \<le> area rect_ops (intersection rect_ops (union_all rect_ops b) (Polygon_rect u0 v0 u1 v1)) \<and>
         area rect_ops (intersection rect_ops (union_all rect_ops b) (Polygon_rect u0 v0 u1 v1))
           \<le> area rect_ops (union_all rect_ops b)"
  using rect_intersection_area[OF rect_union_all_wf[OF assms]]
  by (simp add: rect_ops_def Polygon_rect_def)




section \<open>The report, line by line\<close>




section \<open>Printed numbers\<close>











section \<open>Claims\<close>

text \<open>
  C1, as amended. \<^verbatim>\<open>analyze_land\<close> has no check of the boundary's area. When the merged
  boundary has area zero, the call raises \<^verbatim>\<open>ZeroDivisionError\<close> if some region
  intersects the merged boundary, and otherwise returns a Plan: the default biome key
  \<^verbatim>\<open>Tropical_Savanna\<close>, its flora list, and zero for every number.
\<close>

theorem zero_area_boundary:
  assumes "area K (union_all K b) = 0"
  shows "analyze_land K R F b =
     (if \<exists>r \<in> set R. intersects K (union_all K b) (snd r) then Inl ZeroDivisionError
      else Inr \<lparr>biogeographic_region = ''Tropical_Savanna'',
                recommended_flora = dict_get F ''Tropical_Savanna'' [],
                simulation = \<lparr>land_area_hectares = 0, estimated_trees_year_5 = 0,
                  estimated_chickens_year_2 = 0, black_soldier_fly_production_kg_week = 0,
                  region_overlap_percentage = PyInt 0\<rparr>\<rparr>)"
proof (cases "\<exists>r \<in> set R. intersects K (union_all K b) (snd r)")
  case True
  then show ?thesis using region_loop_zero_area[OF assms True]
    by (simp add: analyze_land_eq)
next
  case False
  then have "region_loop K (union_all K b) R (PyInt 0, None) = Inr (PyInt 0, None)"
    by (intro region_loop_no_hit) simp
  then show ?thesis using False assms
    by (simp add: analyze_land_eq make_plan_def region_key_of_def py_int_def
        py_round_float_def round_half_even_def)
qed

text \<open>The theorem at a degenerate rectangle inside the first region: the call raises.\<close>

theorem zero_area_boundary_witness:
  "area rect_ops (union_all rect_ops [Polygon_rect 34 0 35 0]) = 0 \<and>
   analyze_land rect_ops BIOGEO_REGIONS_GDF FLORA_DATABASE [Polygon_rect 34 0 35 0] =
     Inl ZeroDivisionError"
proof -
  have a: "area rect_ops (union_all rect_ops [Polygon_rect 34 0 35 0]) = 0"
    by (simp add: rect_eval)
  show ?thesis
    using zero_area_boundary[OF a, of BIOGEO_REGIONS_GDF FLORA_DATABASE] a
    by (simp add: rect_ops_def BIOGEO_REGIONS_GDF_def Polygon_rect_def rect_intersects_def)
qed

text \<open>
  C1 as stated fails: a degenerate rectangle (all points on one line) away from both
  regions has area zero, and the call returns a Plan.
\<close>

theorem zero_area_plan_counterexample:
  "area rect_ops (union_all rect_ops [Polygon_rect 0 0 1 0]) = 0 \<and>
   analyze_land rect_ops BIOGEO_REGIONS_GDF FLORA_DATABASE [Polygon_rect 0 0 1 0] =
     Inr \<lparr>biogeographic_region = ''Tropical_Savanna'',
          recommended_flora =
            [\<lparr>name = ''Acacia tortilis'', type = ''Tree'',
              chicken_benefit = ''Shade, pods for forage''\<rparr>,
             \<lparr>name = ''Cenchrus ciliaris'', type = ''Grass'',
              chicken_benefit = ''Drought-resistant forage''\<rparr>],
          simulation = \<lparr>land_area_hectares = 0, estimated_trees_year_5 = 0,
            estimated_chickens_year_2 = 0, black_soldier_fly_production_kg_week = 0,
            region_overlap_percentage = PyInt 0\<rparr>\<rparr>"
  by (simp add: rect_eval)





text \<open>
  C3. When \<^verbatim>\<open>analyze_land\<close> returns a Plan, either no region has a positive overlap
  percentage and the default key is used, or the table splits as
  \<open>pre @ (n, g) # post\<close> where the region \<open>n\<close> gives the Plan its key and its
  overlap, every intersecting region before it has a strictly smaller percentage and
  every intersecting region after it has a percentage that is at most equal: among the
  regions that reach the maximum, the earliest in list order wins, whatever else
  distinguishes them.
\<close>

theorem first_maximal_region_wins:
  assumes "analyze_land K R F b = Inr p"
  shows "(biogeographic_region p = ''Tropical_Savanna'' \<and>
          region_overlap_percentage (simulation p) = PyInt 0 \<and>
          (\<forall>r \<in> set R. intersects K (union_all K b) (snd r) \<longrightarrow>
                overlap_pct K (union_all K b) (snd r) \<le> 0))
       \<or> (\<exists>pre n g post. R = pre @ (n, g) # post \<and>
             intersects K (union_all K b) g \<and>
             0 < overlap_pct K (union_all K b) g \<and>
             biogeographic_region p = region_key_of (Some n) \<and>
             region_overlap_percentage (simulation p) =
               PyFloat (py_round_float (overlap_pct K (union_all K b) g) 1) \<and>
             (\<forall>r \<in> set pre. intersects K (union_all K b) (snd r) \<longrightarrow>
                overlap_pct K (union_all K b) (snd r) < overlap_pct K (union_all K b) g) \<and>
             (\<forall>r \<in> set post. intersects K (union_all K b) (snd r) \<longrightarrow>
                overlap_pct K (union_all K b) (snd r) \<le> overlap_pct K (union_all K b) g))"
proof -
  from analyze_land_Inr[OF assms] obtain m s where
    loop: "region_loop K (union_all K b) R (PyInt 0, None) = Inr (m, s)"
    and p: "p = make_plan K F (union_all K b) (m, s)"
    by (metis surj_pair)
  from region_loop_first_max[OF loop] show ?thesis
  proof (elim disjE exE conjE)
    assume "(m, s) = (PyInt 0, None)"
      "\<forall>r \<in> set R. intersects K (union_all K b) (snd r) \<longrightarrow>
         overlap_pct K (union_all K b) (snd r) \<le> py_val (PyInt 0)"
    then show ?thesis by (simp add: p make_plan_def region_key_of_def)
  next
    fix pre n g post
    assume a: "R = pre @ (n, g) # post" "intersects K (union_all K b) g"
      "py_val (PyInt 0) < overlap_pct K (union_all K b) g"
      "m = PyFloat (overlap_pct K (union_all K b) g)" "s = Some n"
      "\<forall>r \<in> set pre. intersects K (union_all K b) (snd r) \<longrightarrow>
         overlap_pct K (union_all K b) (snd r) < overlap_pct K (union_all K b) g"
      "\<forall>r \<in> set post. intersects K (union_all K b) (snd r) \<longrightarrow>
         overlap_pct K (union_all K b) (snd r) \<le> overlap_pct K (union_all K b) g"
    have "biogeographic_region p = region_key_of (Some n)"
      by (simp add: p make_plan_def a(5))
    moreover have "region_overlap_percentage (simulation p) =
               PyFloat (py_round_float (overlap_pct K (union_all K b) g) 1)"
      by (simp add: p make_plan_def a(4))
    moreover have "0 < overlap_pct K (union_all K b) g" using a(3) by simp
    ultimately show ?thesis using a(1,2,6,7) by blast
  qed
qed

text \<open>
  The theorem at a boundary of two pieces of equal area, one in each region (50 percent
  each): the first region of the table wins, and with the table reversed the other one.
\<close>

theorem first_maximal_region_wins_witness:
  "overlap_pct rect_ops
      (union_all rect_ops [Polygon_rect 35 0 35.5 1, Polygon_rect 36 (-0.5) 36.5 0.5])
      (Polygon_rect 33.5 (-1.5) 35.5 1.5) = 50 \<and>
   overlap_pct rect_ops
      (union_all rect_ops [Polygon_rect 35 0 35.5 1, Polygon_rect 36 (-0.5) 36.5 0.5])
      (Polygon_rect 36.0 (-2.0) 38.0 0.5) = 50 \<and>
   analyze_land rect_ops BIOGEO_REGIONS_GDF FLORA_DATABASE
      [Polygon_rect 35 0 35.5 1, Polygon_rect 36 (-0.5) 36.5 0.5] =
     Inr \<lparr>biogeographic_region = ''Tropical_Rainforest'',
          recommended_flora = dict_get FLORA_DATABASE ''Tropical_Rainforest'' [],
          simulation = \<lparr>land_area_hectares = 10000, estimated_trees_year_5 = 1000000,
            estimated_chickens_year_2 = 500000, black_soldier_fly_production_kg_week = 20000,
            region_overlap_percentage = PyFloat 50\<rparr>\<rparr> \<and>
   analyze_land rect_ops (rev BIOGEO_REGIONS_GDF) FLORA_DATABASE
      [Polygon_rect 35 0 35.5 1, Polygon_rect 36 (-0.5) 36.5 0.5] =
     Inr \<lparr>biogeographic_region = ''Tropical_Savanna'',
          recommended_flora = dict_get FLORA_DATABASE ''Tropical_Savanna'' [],
          simulation = \<lparr>land_area_hectares = 10000, estimated_trees_year_5 = 1000000,
            estimated_chickens_year_2 = 500000, black_soldier_fly_production_kg_week = 20000,
            region_overlap_percentage = PyFloat 50\<rparr>\<rparr>"
proof -
  have r: "analyze_land rect_ops BIOGEO_REGIONS_GDF FLORA_DATABASE
      [Polygon_rect 35 0 35.5 1, Polygon_rect 36 (-0.5) 36.5 0.5] =
     Inr \<lparr>biogeographic_region = ''Tropical_Rainforest'',
          recommended_flora = dict_get FLORA_DATABASE ''Tropical_Rainforest'' [],
          simulation = \<lparr>land_area_hectares = 10000, estimated_trees_year_5 = 1000000,
            estimated_chickens_year_2 = 500000, black_soldier_fly_production_kg_week = 20000,
            region_overlap_percentage = PyFloat 50\<rparr>\<rparr>"
    by (simp add: rect_eval)
  have r': "analyze_land rect_ops (rev BIOGEO_REGIONS_GDF) FLORA_DATABASE
      [Polygon_rect 35 0 35.5 1, Polygon_rect 36 (-0.5) 36.5 0.5] =
     Inr \<lparr>biogeographic_region = ''Tropical_Savanna'',
          recommended_flora = dict_get FLORA_DATABASE ''Tropical_Savanna'' [],
          simulation = \<lparr>land_area_hectares = 10000, estimated_trees_year_5 = 1000000,
            estimated_chickens_year_2 = 500000, black_soldier_fly_production_kg_week = 20000,
            region_overlap_percentage = PyFloat 50\<rparr>\<rparr>"
    by (simp add: rect_eval)
  have a: "overlap_pct rect_ops
      (union_all rect_ops [Polygon_rect 35 0 35.5 1, Polygon_rect 36 (-0.5) 36.5 0.5])
      (Polygon_rect 33.5 (-1.5) 35.5 1.5) = 50"
    by (simp add: rect_eval)
  have b: "overlap_pct rect_ops
      (union_all rect_ops [Polygon_rect 35 0 35.5 1, Polygon_rect 36 (-0.5) 36.5 0.5])
      (Polygon_rect 36.0 (-2.0) 38.0 0.5) = 50"
    by (simp add: rect_eval)
  show ?thesis using first_maximal_region_wins[OF r] r r' a b by simp
qed

text \<open>
  C5. For a rectangle of positive area inside the first region of the module,
  \<open>[33.5, 35.5] \<times> [-1.5, 1.5]\<close>, the Plan has the key \<^verbatim>\<open>Tropical_Rainforest\<close>, the
  overlap percentage 100.0 and the three flora entries Leucaena leucocephala, Moringa
  oleifera and Paspalum notatum.
\<close>

theorem rectangle_inside_first_region:
  assumes "33.5 \<le> x0" "x0 < x1" "x1 \<le> 35.5" "-1.5 \<le> y0" "y0 < y1" "y1 \<le> 1.5"
  shows "\<exists>p. analyze_land rect_ops BIOGEO_REGIONS_GDF FLORA_DATABASE [Polygon_rect x0 y0 x1 y1] =
             Inr p \<and>
           biogeographic_region p = ''Tropical_Rainforest'' \<and>
           region_overlap_percentage (simulation p) = PyFloat 100 \<and>
           recommended_flora p =
             [\<lparr>name = ''Leucaena leucocephala'', type = ''Tree'',
               chicken_benefit = ''High-protein forage, shade''\<rparr>,
              \<lparr>name = ''Moringa oleifera'', type = ''Tree'',
               chicken_benefit = ''Vitamins, minerals, forage''\<rparr>,
              \<lparr>name = ''Paspalum notatum'', type = ''Grass'',
               chicken_benefit = ''Ground cover, forage''\<rparr>]"
proof -
  have nz: "(x1 - x0) * (y1 - y0) \<noteq> 0" using assms by simp
  have mx: "max x0 (67 / 2) = x0" "min x1 (71 / 2) = x1" "max y0 (- (3 / 2)) = y0"
    "min y1 (3 / 2) = y1"
    using assms by (simp_all add: max_def min_def)
  have loop: "region_loop rect_ops (union_all rect_ops [Polygon_rect x0 y0 x1 y1])
      BIOGEO_REGIONS_GDF (PyInt 0, None) = Inr (PyFloat 100, Some ''Tropical_Rainforest_Region'')"
    using assms nz mx
    by (simp add: rect_ops_def BIOGEO_REGIONS_GDF_def Polygon_rect_def rect_intersects_def
        rect_intersection_def rect_geom_area_def py_truediv_def)
  have "py_round_float 100 1 = 100"
    by (simp add: py_round_float_def round_half_even_def)
  then show ?thesis using loop
    by (simp add: analyze_land_eq make_plan_def region_key_of_def dict_get_def
        FLORA_DATABASE_def)
qed

text \<open>The theorem at the unit square with the corners (34, 0) and (35, 1).\<close>

theorem rectangle_inside_first_region_witness:
  "(33.5::real) \<le> 34 \<and> (34::real) < 35 \<and> (35::real) \<le> 35.5 \<and> (-1.5::real) \<le> 0 \<and>
   (0::real) < 1 \<and> (1::real) \<le> 1.5 \<and>
   analyze_land rect_ops BIOGEO_REGIONS_GDF FLORA_DATABASE [Polygon_rect 34 0 35 1] =
     Inr \<lparr>biogeographic_region = ''Tropical_Rainforest'',
          recommended_flora =
            [\<lparr>name = ''Leucaena leucocephala'', type = ''Tree'',
              chicken_benefit = ''High-protein forage, shade''\<rparr>,
             \<lparr>name = ''Moringa oleifera'', type = ''Tree'',
              chicken_benefit = ''Vitamins, minerals, forage''\<rparr>,
             \<lparr>name = ''Paspalum notatum'', type = ''Grass'',
              chicken_benefit = ''Ground cover, forage''\<rparr>],
          simulation = \<lparr>land_area_hectares = 10000, estimated_trees_year_5 = 1000000,
            estimated_chickens_year_2 = 500000, black_soldier_fly_production_kg_week = 20000,
            region_overlap_percentage = PyFloat 100\<rparr>\<rparr>"
proof -
  have h: "(33.5::real) \<le> 34" "(34::real) < 35" "(35::real) \<le> 35.5" "(-1.5::real) \<le> 0"
    "(0::real) < 1" "(1::real) \<le> 1.5"
    by simp_all
  have r: "analyze_land rect_ops BIOGEO_REGIONS_GDF FLORA_DATABASE [Polygon_rect 34 0 35 1] =
     Inr \<lparr>biogeographic_region = ''Tropical_Rainforest'',
          recommended_flora =
            [\<lparr>name = ''Leucaena leucocephala'', type = ''Tree'',
              chicken_benefit = ''High-protein forage, shade''\<rparr>,
             \<lparr>name = ''Moringa oleifera'', type = ''Tree'',
              chicken_benefit = ''Vitamins, minerals, forage''\<rparr>,
             \<lparr>name = ''Paspalum notatum'', type = ''Grass'',
              chicken_benefit = ''Ground cover, forage''\<rparr>],
          simulation = \<lparr>land_area_hectares = 10000, estimated_trees_year_5 = 1000000,
            estimated_chickens_year_2 = 500000, black_soldier_fly_production_kg_week = 20000,
            region_overlap_percentage = PyFloat 100\<rparr>\<rparr>"
    by (simp add: rect_eval)
  show ?thesis using rectangle_inside_first_region[OF h] h r by simp
qed



text \<open>
  C7. When the loop has returned and the biome key is not a key of the flora table, a
  Plan is returned all the same, and its flora list is empty.
\<close>

theorem missing_flora_key:
  assumes "region_loop K (union_all K b) R (PyInt 0, None) = Inr (m, s)"
    and "F (region_key_of s) = None"
  shows "\<exists>p. analyze_land K R F b = Inr p \<and> biogeographic_region p = region_key_of s \<and>
             recommended_flora p = []"
  using assms by (simp add: analyze_land_eq make_plan_def dict_get_def)

text \<open>The theorem at a table whose only region is named \<^verbatim>\<open>Desert_Region\<close>.\<close>

theorem missing_flora_key_witness:
  "region_loop rect_ops (union_all rect_ops [Polygon_rect 0 0 1 1])
      [(''Desert_Region'', Polygon_rect 0 0 2 2)] (PyInt 0, None) =
     Inr (PyFloat 100, Some ''Desert_Region'') \<and>
   FLORA_DATABASE (region_key_of (Some ''Desert_Region'')) = None \<and>
   analyze_land rect_ops [(''Desert_Region'', Polygon_rect 0 0 2 2)] FLORA_DATABASE
      [Polygon_rect 0 0 1 1] =
     Inr \<lparr>biogeographic_region = ''Desert'', recommended_flora = [],
          simulation = \<lparr>land_area_hectares = 10000, estimated_trees_year_5 = 1000000,
            estimated_chickens_year_2 = 500000, black_soldier_fly_production_kg_week = 20000,
            region_overlap_percentage = PyFloat 100\<rparr>\<rparr>"
proof -
  have l: "region_loop rect_ops (union_all rect_ops [Polygon_rect 0 0 1 1])
      [(''Desert_Region'', Polygon_rect 0 0 2 2)] (PyInt 0, None) =
     Inr (PyFloat 100, Some ''Desert_Region'')"
    by (simp add: rect_eval)
  have k: "FLORA_DATABASE (region_key_of (Some ''Desert_Region'')) = None"
    by (simp add: rect_eval)
  have r: "analyze_land rect_ops [(''Desert_Region'', Polygon_rect 0 0 2 2)] FLORA_DATABASE
      [Polygon_rect 0 0 1 1] =
     Inr \<lparr>biogeographic_region = ''Desert'', recommended_flora = [],
          simulation = \<lparr>land_area_hectares = 10000, estimated_trees_year_5 = 1000000,
            estimated_chickens_year_2 = 500000, black_soldier_fly_production_kg_week = 20000,
            region_overlap_percentage = PyFloat 100\<rparr>\<rparr>"
    by (simp add: rect_eval)
  show ?thesis
    using missing_flora_key[of rect_ops "[Polygon_rect 0 0 1 1]"
        "[(''Desert_Region'', Polygon_rect 0 0 2 2)]" "PyFloat 100" "Some ''Desert_Region''"
        FLORA_DATABASE] l k r
    by simp
qed

text \<open>
  C10. When every region that intersects the merged boundary has an overlap percentage
  that is not positive, which includes a region that only touches the boundary along its
  border, no region is selected: the Plan has the default key \<^verbatim>\<open>Tropical_Savanna\<close>
  and the overlap is the initial integer 0.
\<close>

theorem default_biome_fallback:
  assumes "\<forall>r \<in> set R. intersects K (union_all K b) (snd r) \<longrightarrow>
             area K (union_all K b) \<noteq> 0 \<and> overlap_pct K (union_all K b) (snd r) \<le> 0"
  shows "\<exists>p. analyze_land K R F b = Inr p \<and>
           biogeographic_region p = ''Tropical_Savanna'' \<and>
           recommended_flora p = dict_get F ''Tropical_Savanna'' [] \<and>
           region_overlap_percentage (simulation p) = PyInt 0"
proof -
  have "\<forall>r \<in> set R. intersects K (union_all K b) (snd r) \<longrightarrow> area K (union_all K b) \<noteq> 0"
    using assms by blast
  from region_loop_total[OF this] obtain m s where
    loop: "region_loop K (union_all K b) R (PyInt 0, None) = Inr (m, s)"
    by (metis surj_pair)
  from region_loop_first_max[OF loop] assms have "(m, s) = (PyInt 0, None)"
    by (auto simp: not_less[symmetric])
  then show ?thesis using loop
    by (simp add: analyze_land_eq make_plan_def region_key_of_def)
qed

text \<open>
  The theorem at a rectangle that touches the first region along the line \<open>x = 35.5\<close>:
  the two intersect, the intersection has area zero, and the default key is used.
\<close>

theorem default_biome_fallback_witness:
  "rect_intersects (union_all rect_ops [Polygon_rect 35.5 0 35.8 1]) (Polygon_rect 33.5 (-1.5) 35.5 1.5) \<and>
   overlap_pct rect_ops (union_all rect_ops [Polygon_rect 35.5 0 35.8 1]) (Polygon_rect 33.5 (-1.5) 35.5 1.5) = 0 \<and>
   analyze_land rect_ops BIOGEO_REGIONS_GDF FLORA_DATABASE [Polygon_rect 35.5 0 35.8 1] =
     Inr \<lparr>biogeographic_region = ''Tropical_Savanna'',
          recommended_flora = dict_get FLORA_DATABASE ''Tropical_Savanna'' [],
          simulation = \<lparr>land_area_hectares = 3000, estimated_trees_year_5 = 300000,
            estimated_chickens_year_2 = 150000, black_soldier_fly_production_kg_week = 6000,
            region_overlap_percentage = PyInt 0\<rparr>\<rparr>"
proof -
  have h: "\<forall>r \<in> set BIOGEO_REGIONS_GDF.
      intersects rect_ops (union_all rect_ops [Polygon_rect 35.5 0 35.8 1]) (snd r) \<longrightarrow>
        area rect_ops (union_all rect_ops [Polygon_rect 35.5 0 35.8 1]) \<noteq> 0 \<and>
        overlap_pct rect_ops (union_all rect_ops [Polygon_rect 35.5 0 35.8 1]) (snd r) \<le> 0"
    by (simp add: rect_eval)
  have r: "analyze_land rect_ops BIOGEO_REGIONS_GDF FLORA_DATABASE [Polygon_rect 35.5 0 35.8 1] =
     Inr \<lparr>biogeographic_region = ''Tropical_Savanna'',
          recommended_flora = dict_get FLORA_DATABASE ''Tropical_Savanna'' [],
          simulation = \<lparr>land_area_hectares = 3000, estimated_trees_year_5 = 300000,
            estimated_chickens_year_2 = 150000, black_soldier_fly_production_kg_week = 6000,
            region_overlap_percentage = PyInt 0\<rparr>\<rparr>"
    by (simp add: rect_eval)
  have t: "rect_intersects (union_all rect_ops [Polygon_rect 35.5 0 35.8 1]) (Polygon_rect 33.5 (-1.5) 35.5 1.5)"
    by (simp add: rect_eval)
  have z: "overlap_pct rect_ops (union_all rect_ops [Polygon_rect 35.5 0 35.8 1]) (Polygon_rect 33.5 (-1.5) 35.5 1.5) = 0"
    by (simp add: rect_eval)
  show ?thesis using default_biome_fallback[OF h, of FLORA_DATABASE] r t z by simp
qed






end
